theory Spec2Isabelle
  imports Complex_Main
begin

section \<open>Sky localizations: the data model of \<open>skyportal/models/localization.py\<close>\<close>

text \<open>
  The module declares the \<open>Localization\<close> row (a multi-order HEALPix sky map kept as
  parallel arrays) and a handful of derived views computed with numpy, astropy, healpy and
  ligo.skymap. The arrays are Python lists: \<open>uniq\<close> holds Python integers, the other four
  hold floats. Nothing below computes with the floats, so their type is a parameter \<open>'f\<close>.
  The three distance arrays are nullable columns: \<open>None\<close> is the Python \<open>None\<close>.
  The remaining columns (\<open>sent_by_id\<close>, \<open>dateobs\<close>, \<open>localization_name\<close>,
  \<open>contour\<close>) and the relationships are not read by any of the derived views.
\<close>

subsection \<open>Exceptions\<close>

text \<open>
  A raised exception is a value; every constructor stands for a subclass of Python's
  \<open>Exception\<close>. \<open>LibraryError\<close> is any exception coming out of a library call whose
  body is not modelled; it carries the library's message.
\<close>

datatype exn = OverflowError | ValueError | KeyError | IndexError | LibraryError string

subsection \<open>The row\<close>

record 'f Localization =
  uniq :: "int list"
  probdensity :: "'f list"
  distmu :: "'f list option"
  distsigma :: "'f list option"
  distnorm :: "'f list option"

text \<open>
  The class has no \<open>__init__\<close>, no validator and no check constraint: an instance is built
  by the declarative constructor, which assigns each keyword argument to the attribute of
  the same name. There is no branch that raises.
\<close>

definition Localization_init ::
  "int list \<Rightarrow> 'f list \<Rightarrow> 'f list option \<Rightarrow> 'f list option \<Rightarrow> 'f list option
     \<Rightarrow> exn + 'f Localization" where
  "Localization_init u p mu sg nm =
     Inr \<lparr>uniq = u, probdensity = p, distmu = mu, distsigma = sg, distnorm = nm\<rparr>"

text \<open>\<open>Localization.nside\<close>: HEALPix resolution used for flat operations.\<close>

definition nside :: nat where
  "nside = 512"

text \<open>The hybrid property \<open>is_3d\<close>.\<close>

definition is_3d :: "'f Localization \<Rightarrow> bool" where
  "is_3d l \<longleftrightarrow> distmu l \<noteq> None \<and> distsigma l \<noteq> None \<and> distnorm l \<noteq> None"

subsection \<open>Tables\<close>

text \<open>
  An astropy \<open>Table\<close> built from a list of columns and a list of names: the columns in
  order, each under its name. \<open>np.asarray(xs, dtype=np.int64)\<close> raises \<open>OverflowError\<close>
  when an element does not fit in a signed 64-bit integer and returns the elements
  otherwise. \<open>Table\<close> raises \<open>ValueError\<close> when the columns do not all have the same
  length.
\<close>

datatype 'f column = IntColumn "int list" | FloatColumn "'f list"

fun column_length :: "'f column \<Rightarrow> nat" where
  "column_length (IntColumn xs) = length xs"
| "column_length (FloatColumn xs) = length xs"

type_synonym 'f table = "(string \<times> 'f column) list"

definition asarray_int64 :: "int list \<Rightarrow> exn + int list" where
  "asarray_int64 xs =
     (if \<forall>x \<in> set xs. - (2 ^ 63) \<le> x \<and> x < 2 ^ 63 then Inr xs else Inl OverflowError)"

definition Table :: "'f column list \<Rightarrow> string list \<Rightarrow> exn + 'f table" where
  "Table cols names =
     (if length names \<noteq> length cols then Inl ValueError
      else if \<exists>c \<in> set cols. column_length c \<noteq> column_length (hd cols) then Inl ValueError
      else Inr (zip names cols))"

text \<open>Reading a column by name, \<open>t['NAME']\<close>.\<close>

definition getcol :: "(string \<times> 'a) list \<Rightarrow> string \<Rightarrow> exn + 'a" where
  "getcol t name = (case map_of t name of None \<Rightarrow> Inl KeyError | Some c \<Rightarrow> Inr c)"

text \<open>The property \<open>table_2d\<close>: probability density only.\<close>

definition table_2d :: "'f Localization \<Rightarrow> exn + 'f table" where
  "table_2d l =
     (case asarray_int64 (uniq l) of
        Inl e \<Rightarrow> Inl e
      | Inr u \<Rightarrow> Table [IntColumn u, FloatColumn (probdensity l)] [''UNIQ'', ''PROBDENSITY''])"

text \<open>The property \<open>table\<close>: probability density and distance.\<close>

definition table :: "'f Localization \<Rightarrow> exn + 'f table" where
  "table l =
     (if is_3d l then
        (case asarray_int64 (uniq l) of
           Inl e \<Rightarrow> Inl e
         | Inr u \<Rightarrow>
             Table [IntColumn u, FloatColumn (probdensity l), FloatColumn (the (distmu l)),
                    FloatColumn (the (distsigma l)), FloatColumn (the (distnorm l))]
                   [''UNIQ'', ''PROBDENSITY'', ''DISTMU'', ''DISTSIGMA'', ''DISTNORM''])
      else table_2d l)"

subsection \<open>Sequencing calls that may raise\<close>

definition andthen :: "exn + 'a \<Rightarrow> ('a \<Rightarrow> exn + 'b) \<Rightarrow> exn + 'b" where
  "andthen r f = (case r of Inl e \<Rightarrow> Inl e | Inr v \<Rightarrow> f v)"

fun sequence :: "(exn + 'a) list \<Rightarrow> exn + 'a list" where
  "sequence [] = Inr []"
| "sequence (r # rs) = andthen r (\<lambda>v. andthen (sequence rs) (\<lambda>vs. Inr (v # vs)))"

section \<open>The libraries the module calls\<close>

text \<open>
  The derived views are thin compositions of library calls. What a call is documented to
  do with the shape of its argument (lengths, column names, which index is read) is
  written out below. What it computes numerically, and whether it raises on a given
  value, is left open: those parts are the fields of a \<open>library\<close> record that every
  view takes as its first argument, so a statement proved for all \<open>lib\<close> holds whatever
  the libraries compute. \<open>'c\<close> is the type of a sky coordinate (astropy's \<open>SkyCoord\<close>).

  \<^item> \<open>raster_cell t order\<close>: what \<open>ligo.skymap.bayestar.rasterize\<close> computes for the
    table \<open>t\<close> at \<open>order\<close>: either it raises, or it gives the value of every output column
    (named by the input column it comes from) at every NESTED pixel index.
  \<^item> \<open>ring2nest n r\<close>: healpy's \<open>ring2nest\<close>, the NESTED index of the RING pixel \<open>r\<close>
    at resolution \<open>n\<close>.
  \<^item> \<open>posterior_max\<close>: \<open>ligo.skymap.postprocess.posterior_max\<close>.
  \<^item> \<open>ra_deg\<close>, \<open>dec_deg\<close>, \<open>galactic_b_deg\<close>, \<open>galactic_l_deg\<close>: the attribute
    chains \<open>coord.ra.deg\<close>, \<open>coord.dec.deg\<close>, \<open>coord.galactic.b.deg\<close>,
    \<open>coord.galactic.l.deg\<close>.
  \<^item> \<open>SFDQuery\<close>: the expression \<open>float(dustmaps.sfd.SFDQuery()(coord))\<close>, which
    opens the dust map, queries it and converts the answer, and may raise at each step.
\<close>

record ('f, 'c) library =
  raster_cell :: "'f table \<Rightarrow> nat \<Rightarrow> exn + (string \<Rightarrow> nat \<Rightarrow> 'f)"
  ring2nest :: "nat \<Rightarrow> nat \<Rightarrow> nat"
  posterior_max :: "'f list \<Rightarrow> exn + 'c"
  ra_deg :: "'c \<Rightarrow> 'f"
  dec_deg :: "'c \<Rightarrow> 'f"
  galactic_b_deg :: "'c \<Rightarrow> 'f"
  galactic_l_deg :: "'c \<Rightarrow> 'f"
  SFDQuery :: "'c \<Rightarrow> exn + 'f"

subsection \<open>healpy: resolutions and pixel counts\<close>

unbundle bit_operations_syntax

text \<open>
  \<open>isnsideok(nside, nest=True)\<close>: positive, at most \<open>2^29\<close>, a power of two.
  \<open>nside2order\<close> checks it and returns the number of binary digits less one.
  \<open>nside2npix(nside) = 12 * nside^2\<close>. \<open>npix2nside\<close> accepts exactly the pixel counts of
  that form and returns the square root of a twelfth.
\<close>

fun binary_digits :: "nat \<Rightarrow> nat" where
  "binary_digits n = (if n = 0 then 0 else Suc (binary_digits (n div 2)))"

fun isqrt :: "nat \<Rightarrow> nat" where
  "isqrt n =
     (if n < 2 then n
      else let r = 2 * isqrt (n div 4) in if (r + 1) * (r + 1) \<le> n then r + 1 else r)"

definition isnsideok :: "nat \<Rightarrow> bool" where
  "isnsideok n \<longleftrightarrow> 0 < n \<and> n \<le> 2 ^ 29 \<and> n AND (n - 1) = 0"

definition nside2order :: "nat \<Rightarrow> exn + nat" where
  "nside2order n = (if isnsideok n then Inr (binary_digits n - 1) else Inl ValueError)"

definition nside2npix :: "nat \<Rightarrow> nat" where
  "nside2npix n = 12 * n * n"

definition isnpixok :: "nat \<Rightarrow> bool" where
  "isnpixok npix \<longleftrightarrow> npix mod 12 = 0 \<and> isqrt (npix div 12) * isqrt (npix div 12) = npix div 12"

definition npix2nside :: "nat \<Rightarrow> exn + nat" where
  "npix2nside npix = (if isnpixok npix then Inr (isqrt (npix div 12)) else Inl ValueError)"

subsection \<open>ligo.skymap: rasterize\<close>

text \<open>
  \<open>rasterize(skymap, order)\<close> returns a fixed-order table in NESTED ordering with one row
  per pixel of that order, \<open>nside2npix (2^order)\<close> rows, holding every column of the input
  except \<open>UNIQ\<close>, with \<open>PROBDENSITY\<close> renamed to \<open>PROB\<close>.
\<close>

type_synonym 'f raster = "(string \<times> 'f list) list"

definition out_name :: "string \<Rightarrow> string" where
  "out_name n = (if n = ''PROBDENSITY'' then ''PROB'' else n)"

definition rasterize :: "('f, 'c) library \<Rightarrow> 'f table \<Rightarrow> nat \<Rightarrow> exn + 'f raster" where
  "rasterize lib t order =
     andthen (raster_cell lib t order) (\<lambda>cell.
       Inr (map (\<lambda>n. (out_name n, map (cell n) [0..<nside2npix (2 ^ order)]))
                (filter (\<lambda>n. n \<noteq> ''UNIQ'') (map fst t))))"

subsection \<open>healpy: reorder from NESTED to RING\<close>

text \<open>
  \<open>m[idx]\<close> with an index array raises \<open>IndexError\<close> when an index is out of range.
  \<open>reorder(map_in, 'NESTED', 'RING')\<close> takes the pixel count from the map (from the
  first map, when given a sequence of maps), derives the resolution with \<open>npix2nside\<close>,
  and fills position \<open>r\<close> of the output with the input at \<open>ring2nest(nside, r)\<close>; a
  sequence of maps is reordered map by map. The module calls \<open>reorder\<close> with these two
  orderings only.
\<close>

definition take_indices :: "'a list \<Rightarrow> nat list \<Rightarrow> exn + 'a list" where
  "take_indices m idx =
     (if \<forall>i \<in> set idx. i < length m then Inr (map (\<lambda>i. m ! i) idx) else Inl IndexError)"

definition reorder_one :: "('f, 'c) library \<Rightarrow> nat \<Rightarrow> nat \<Rightarrow> 'f list \<Rightarrow> exn + 'f list" where
  "reorder_one lib npix ns m = take_indices m (map (ring2nest lib ns) [0..<npix])"

definition reorder :: "('f, 'c) library \<Rightarrow> 'f list \<Rightarrow> exn + 'f list" where
  "reorder lib m = andthen (npix2nside (length m)) (\<lambda>ns. reorder_one lib (length m) ns m)"

definition reorder_seq :: "('f, 'c) library \<Rightarrow> 'f list list \<Rightarrow> exn + 'f list list" where
  "reorder_seq lib ms =
     (case ms of
        [] \<Rightarrow> Inl IndexError
      | m0 # _ \<Rightarrow>
          andthen (npix2nside (length m0)) (\<lambda>ns.
            sequence (map (reorder_one lib (length m0) ns) ms)))"

section \<open>The derived views\<close>

text \<open>The property \<open>flat_2d\<close>: flat resolution, probability only.\<close>

definition flat_2d :: "('f, 'c) library \<Rightarrow> 'f Localization \<Rightarrow> exn + 'f list" where
  "flat_2d lib l =
     andthen (nside2order nside) (\<lambda>order.
     andthen (table_2d l) (\<lambda>tb.
     andthen (rasterize lib tb order) (\<lambda>t.
     andthen (getcol t ''PROB'') (\<lambda>result.
     reorder lib result))))"

text \<open>
  The property \<open>flat\<close>: flat resolution, probability and distance. The value is a sequence
  of arrays: four of them for a 3D map, the one-element tuple \<open>(flat_2d,)\<close> otherwise.
\<close>

definition flat :: "('f, 'c) library \<Rightarrow> 'f Localization \<Rightarrow> exn + 'f list list" where
  "flat lib l =
     (if is_3d l then
        andthen (nside2order nside) (\<lambda>order.
        andthen (table l) (\<lambda>tb.
        andthen (rasterize lib tb order) (\<lambda>t.
        andthen (getcol t ''PROB'') (\<lambda>prob.
        andthen (getcol t ''DISTMU'') (\<lambda>mu.
        andthen (getcol t ''DISTSIGMA'') (\<lambda>sg.
        andthen (getcol t ''DISTNORM'') (\<lambda>nm.
        reorder_seq lib [prob, mu, sg, nm])))))))
      else andthen (flat_2d lib l) (\<lambda>r. Inr [r]))"

text \<open>
  The property \<open>center\<close>. The result is a dictionary from the five keys to a float or
  \<open>None\<close>; the \<open>try\<close> around the dust query turns any exception into \<open>ebv = None\<close>.
\<close>

definition center ::
  "('f, 'c) library \<Rightarrow> 'f Localization \<Rightarrow> exn + (string \<rightharpoonup> 'f option)" where
  "center lib l =
     andthen (flat_2d lib l) (\<lambda>prob.
     andthen (posterior_max lib prob) (\<lambda>coord.
       let center_info = [''ra'' \<mapsto> Some (ra_deg lib coord),
                          ''dec'' \<mapsto> Some (dec_deg lib coord),
                          ''gal_lat'' \<mapsto> Some (galactic_b_deg lib coord),
                          ''gal_lon'' \<mapsto> Some (galactic_l_deg lib coord)];
           ebv = (case SFDQuery lib coord of Inr v \<Rightarrow> Some v | Inl e \<Rightarrow> None)
       in Inr (center_info(''ebv'' \<mapsto> ebv))))"

section \<open>The tile index\<close>

text \<open>
  Modelled from the spec: the Spherical Tile Index (\<open>encode\<close>, \<open>decode\<close>) is not among the
  source files, which only store the identifiers it produces. The spec's contract is
  \<open>encode(order, pixelIndex) -> tileId\<close> and \<open>decode(tileId) -> (order, pixelIndex)\<close>,
  failing with \<open>InvalidTileId\<close> on an input that is not a valid pair or identifier, for a
  UNIQ-style identifier that jointly encodes a tile's order and pixel number; the column
  documentation of \<open>uniq\<close> names the scheme, the HEALPix UNIQ index. In that scheme order
  \<open>o\<close> has the pixels \<open>0 \<le> p < 12 * 4^o\<close> and the identifier of \<open>(o, p)\<close> is
  \<open>4 * 4^o + p\<close>, so that the identifiers of order \<open>o\<close> are those from \<open>4 * 4^o\<close> up to,
  not including, \<open>16 * 4^o\<close>, and every integer from 4 on is an identifier. The arguments
  are Python integers.
\<close>

datatype tile_error = InvalidTileId

definition valid_pair :: "int \<Rightarrow> int \<Rightarrow> bool" where
  "valid_pair order pixel \<longleftrightarrow> 0 \<le> order \<and> 0 \<le> pixel \<and> pixel < 12 * 4 ^ nat order"

definition encode :: "int \<Rightarrow> int \<Rightarrow> tile_error + int" where
  "encode order pixel =
     (if valid_pair order pixel then Inr (4 * 4 ^ nat order + pixel) else Inl InvalidTileId)"

fun uniq_order :: "nat \<Rightarrow> nat" where
  "uniq_order u = (if u < 16 then 0 else Suc (uniq_order (u div 4)))"

definition decode :: "int \<Rightarrow> tile_error + int \<times> int" where
  "decode tile =
     (if tile < 4 then Inl InvalidTileId
      else let order = uniq_order (nat tile)
           in Inr (int order, tile - 4 * 4 ^ order))"

section \<open>Sample inputs\<close>

text \<open>
  A library in which every call succeeds except the dust query: rasterizing gives zero
  everywhere, \<open>ring2nest\<close> is the identity, the posterior maximum is at the origin, and a
  coordinate is a pair of degrees read back unchanged. Two maps over the first two
  order-0 tiles (\<open>UNIQ\<close> 4 and 5): one without distances, one with.
\<close>

definition sample_library :: "(real, real \<times> real) library" where
  "sample_library =
     \<lparr>raster_cell = (\<lambda>t order. Inr (\<lambda>n i. 0)),
      ring2nest = (\<lambda>ns r. r),
      posterior_max = (\<lambda>prob. Inr (0, 0)),
      ra_deg = fst, dec_deg = snd, galactic_b_deg = snd, galactic_l_deg = fst,
      SFDQuery = (\<lambda>c. Inl (LibraryError ''dust map file not found''))\<rparr>"

definition sample_map_2d :: "real Localization" where
  "sample_map_2d =
     \<lparr>uniq = [4, 5], probdensity = [1 / 4, 3 / 4],
      distmu = None, distsigma = None, distnorm = None\<rparr>"

definition sample_map_3d :: "real Localization" where
  "sample_map_3d =
     \<lparr>uniq = [4, 5], probdensity = [1 / 4, 3 / 4],
      distmu = Some [100, 120], distsigma = Some [10, 12], distnorm = Some [1, 1]\<rparr>"

text \<open>
  A second library, in which reordering is visible: the rasterized value at NESTED index
  \<open>i\<close> of the column that comes from input column \<open>n\<close> is \<open>i\<close> plus the length of the
  name \<open>n\<close>, and \<open>ring2nest\<close> reverses the pixel order, sending RING index \<open>r\<close> to
  \<open>12 * ns * ns - 1 - r\<close>.
\<close>

definition reversing_library :: "(real, real \<times> real) library" where
  "reversing_library =
     \<lparr>raster_cell = (\<lambda>t order. Inr (\<lambda>n i. real (i + length n))),
      ring2nest = (\<lambda>ns r. 12 * ns * ns - 1 - r),
      posterior_max = (\<lambda>prob. Inr (0, 0)),
      ra_deg = fst, dec_deg = snd, galactic_b_deg = snd, galactic_l_deg = fst,
      SFDQuery = (\<lambda>c. Inl (LibraryError ''dust map file not found''))\<rparr>"

section \<open>Facts about the library calls\<close>

declare binary_digits.simps [simp del] isqrt.simps [simp del] uniq_order.simps [simp del]

lemma andthen_Inr_iff: "andthen r f = Inr y \<longleftrightarrow> (\<exists>v. r = Inr v \<and> f v = Inr y)"
  by (cases r) (simp_all add: andthen_def)

lemma andthen_Inr [simp]: "andthen (Inr v) f = f v"
  by (simp add: andthen_def)

lemma andthen_Inl [simp]: "andthen (Inl e) f = Inl e"
  by (simp add: andthen_def)

lemma nside2order_nside: "nside2order nside = Inr 9"
  by (simp add: nside2order_def isnsideok_def nside_def binary_digits.simps)

lemma nside2npix_working: "nside2npix (2 ^ 9) = 3145728" "nside2npix 512 = 3145728"
  by (simp_all add: nside2npix_def)

lemma npix2nside_working: "npix2nside 3145728 = Inr 512"
  by (simp add: npix2nside_def isnpixok_def isqrt.simps Let_def)

lemma table_2d_names: "table_2d l = Inr tb \<Longrightarrow> map fst tb = [''UNIQ'', ''PROBDENSITY'']"
  by (auto simp: table_2d_def asarray_int64_def Table_def andthen_def split: if_splits sum.splits)

lemma table_names:
  "is_3d l \<Longrightarrow> table l = Inr tb \<Longrightarrow>
     map fst tb = [''UNIQ'', ''PROBDENSITY'', ''DISTMU'', ''DISTSIGMA'', ''DISTNORM'']"
  by (auto simp: table_def asarray_int64_def Table_def split: if_splits sum.splits)

lemma rasterize_Inr:
  "rasterize lib tb order = Inr t \<Longrightarrow>
     \<exists>cell. raster_cell lib tb order = Inr cell \<and>
       t = map (\<lambda>n. (out_name n, map (cell n) [0..<nside2npix (2 ^ order)]))
               (filter (\<lambda>n. n \<noteq> ''UNIQ'') (map fst tb))"
  by (auto simp: rasterize_def andthen_Inr_iff)

lemma getcol_Inr: "getcol t name = Inr c \<Longrightarrow> (name, c) \<in> set t"
  by (auto simp: getcol_def split: option.splits dest: map_of_SomeD)

lemma rasterize_column_length:
  assumes "rasterize lib tb order = Inr t" and "getcol t name = Inr c"
  shows "length c = nside2npix (2 ^ order)"
proof -
  from rasterize_Inr [OF assms(1)] obtain cell where
    t: "t = map (\<lambda>n. (out_name n, map (cell n) [0..<nside2npix (2 ^ order)]))
               (filter (\<lambda>n. n \<noteq> ''UNIQ'') (map fst tb))"
    by blast
  from getcol_Inr [OF assms(2)] have "(name, c) \<in> set t" .
  with t show ?thesis by auto
qed

lemma take_indices_Inr:
  "take_indices m idx = Inr xs \<Longrightarrow> xs = map (\<lambda>i. m ! i) idx \<and> (\<forall>i \<in> set idx. i < length m)"
  by (auto simp: take_indices_def split: if_splits)

lemma reorder_one_Inr:
  "reorder_one lib n ns m = Inr xs \<Longrightarrow> xs = map (\<lambda>r. m ! ring2nest lib ns r) [0..<n]"
  by (auto simp: reorder_one_def dest!: take_indices_Inr)

lemma reorder_Inr:
  "reorder lib m = Inr xs \<Longrightarrow>
     \<exists>ns. npix2nside (length m) = Inr ns \<and>
       xs = map (\<lambda>r. m ! ring2nest lib ns r) [0..<length m]"
  by (auto simp: reorder_def andthen_Inr_iff dest: reorder_one_Inr)

lemma sequence_reorder_one:
  "sequence (map (reorder_one lib n ns) ms) = Inr xss \<Longrightarrow>
     xss = map (\<lambda>m. map (\<lambda>r. m ! ring2nest lib ns r) [0..<n]) ms"
  by (induction ms arbitrary: xss) (auto simp: andthen_Inr_iff dest: reorder_one_Inr)

lemma reorder_seq_Inr:
  assumes "reorder_seq lib (m0 # ms) = Inr xss"
  shows "\<exists>ns. npix2nside (length m0) = Inr ns \<and>
           xss = map (\<lambda>m. map (\<lambda>r. m ! ring2nest lib ns r) [0..<length m0]) (m0 # ms)"
proof -
  from assms obtain ns where ns: "npix2nside (length m0) = Inr ns"
    and sq: "sequence (map (reorder_one lib (length m0) ns) (m0 # ms)) = Inr xss"
    unfolding reorder_seq_def list.case andthen_Inr_iff by blast
  from sequence_reorder_one [OF sq] ns show ?thesis by blast
qed

section \<open>What the flat views return\<close>

lemma table_2d_Inr:
  "table_2d l = Inr tb \<Longrightarrow>
     tb = [(''UNIQ'', IntColumn (uniq l)), (''PROBDENSITY'', FloatColumn (probdensity l))]"
  by (auto simp: table_2d_def asarray_int64_def Table_def split: if_splits sum.splits)

lemma rasterize_2d:
  assumes "map fst tb = [''UNIQ'', ''PROBDENSITY'']"
  shows "rasterize lib tb order =
           andthen (raster_cell lib tb order) (\<lambda>cell.
             Inr [(''PROB'', map (cell ''PROBDENSITY'') [0..<nside2npix (2 ^ order)])])"
  by (simp add: rasterize_def assms out_name_def)

lemma take_indices_upt:
  assumes "\<forall>r < n. f r < length m"
  shows "take_indices m (map f [0..<n]) = Inr (map (\<lambda>r. m ! f r) [0..<n])"
  using assms by (simp add: take_indices_def)

lemma reorder_working:
  assumes "length m = 3145728" and "\<forall>r < 3145728. ring2nest lib 512 r < 3145728"
  shows "reorder lib m = Inr (map (\<lambda>r. m ! ring2nest lib 512 r) [0..<3145728])"
  using assms by (simp add: reorder_def reorder_one_def npix2nside_working take_indices_upt)

lemma flat_2d_returns:
  assumes tb: "table_2d l = Inr tb"
    and cell: "raster_cell lib tb 9 = Inr cell"
    and ring: "\<forall>r < 3145728. ring2nest lib 512 r < 3145728"
  shows "flat_2d lib l =
           Inr (map (\<lambda>r. cell ''PROBDENSITY'' (ring2nest lib 512 r)) [0..<3145728])"
proof -
  let ?prob = "map (cell ''PROBDENSITY'') [0..<3145728]"
  have ras: "rasterize lib tb 9 = Inr [(''PROB'', ?prob)]"
    using rasterize_2d [OF table_2d_names [OF tb], of lib 9] cell
    by (simp add: nside2npix_working)
  have col: "getcol [(''PROB'', ?prob)] ''PROB'' = Inr ?prob"
    by (simp add: getcol_def)
  have len: "length ?prob = 3145728" by simp
  have "reorder lib ?prob = Inr (map (\<lambda>r. ?prob ! ring2nest lib 512 r) [0..<3145728])"
    using len ring by (rule reorder_working)
  also have "map (\<lambda>r. ?prob ! ring2nest lib 512 r) [0..<3145728] =
      map (\<lambda>r. cell ''PROBDENSITY'' (ring2nest lib 512 r)) [0..<3145728]"
    using ring by (intro map_cong refl) simp
  finally have re: "reorder lib ?prob =
      Inr (map (\<lambda>r. cell ''PROBDENSITY'' (ring2nest lib 512 r)) [0..<3145728])" .
  show ?thesis
    by (simp add: flat_2d_def nside2order_nside tb ras col re)
qed

lemma reorder_one_working:
  assumes "\<forall>r < n. ring2nest lib ns r < n"
  shows "reorder_one lib n ns (map f [0..<n]) = Inr (map (\<lambda>r. f (ring2nest lib ns r)) [0..<n])"
  using assms by (simp add: reorder_one_def take_indices_def)

lemma rasterize_3d:
  assumes "map fst tb = [''UNIQ'', ''PROBDENSITY'', ''DISTMU'', ''DISTSIGMA'', ''DISTNORM'']"
  shows "rasterize lib tb order =
           andthen (raster_cell lib tb order) (\<lambda>cell.
             Inr [(''PROB'', map (cell ''PROBDENSITY'') [0..<nside2npix (2 ^ order)]),
                  (''DISTMU'', map (cell ''DISTMU'') [0..<nside2npix (2 ^ order)]),
                  (''DISTSIGMA'', map (cell ''DISTSIGMA'') [0..<nside2npix (2 ^ order)]),
                  (''DISTNORM'', map (cell ''DISTNORM'') [0..<nside2npix (2 ^ order)])])"
  by (simp add: rasterize_def assms out_name_def)

lemma flat_returns_3d:
  assumes d3: "is_3d l" and tb: "table l = Inr tb"
    and cell: "raster_cell lib tb 9 = Inr cell"
    and ring: "\<forall>r < 3145728. ring2nest lib 512 r < 3145728"
  shows "flat lib l =
           Inr (map (\<lambda>n. map (\<lambda>r. cell n (ring2nest lib 512 r)) [0..<3145728])
                  [''PROBDENSITY'', ''DISTMU'', ''DISTSIGMA'', ''DISTNORM''])"
proof -
  let ?col = "\<lambda>n. map (cell n) [0..<3145728]"
  let ?t = "[(''PROB'', ?col ''PROBDENSITY''), (''DISTMU'', ?col ''DISTMU''),
             (''DISTSIGMA'', ?col ''DISTSIGMA''), (''DISTNORM'', ?col ''DISTNORM'')]"
  have ras: "rasterize lib tb 9 = Inr ?t"
    using rasterize_3d [OF table_names [OF d3 tb], of lib 9] cell
    by (simp add: nside2npix_working)
  have cols: "getcol ?t ''PROB'' = Inr (?col ''PROBDENSITY'')"
    "getcol ?t ''DISTMU'' = Inr (?col ''DISTMU'')"
    "getcol ?t ''DISTSIGMA'' = Inr (?col ''DISTSIGMA'')"
    "getcol ?t ''DISTNORM'' = Inr (?col ''DISTNORM'')"
    by (simp_all add: getcol_def)
  have one: "reorder_one lib 3145728 512 (?col n) =
      Inr (map (\<lambda>r. cell n (ring2nest lib 512 r)) [0..<3145728])" for n
    using ring by (rule reorder_one_working)
  have re: "reorder_seq lib [?col ''PROBDENSITY'', ?col ''DISTMU'', ?col ''DISTSIGMA'',
        ?col ''DISTNORM''] =
      Inr (map (\<lambda>n. map (\<lambda>r. cell n (ring2nest lib 512 r)) [0..<3145728])
             [''PROBDENSITY'', ''DISTMU'', ''DISTSIGMA'', ''DISTNORM''])"
    by (simp add: reorder_seq_def npix2nside_working one)
  show ?thesis
    unfolding flat_def using d3 by (simp add: nside2order_nside tb ras cols re)
qed

lemma flat_2d_Inr:
  assumes "flat_2d lib l = Inr xs"
  shows "\<exists>tb t prob. table_2d l = Inr tb \<and> rasterize lib tb 9 = Inr t \<and>
           getcol t ''PROB'' = Inr prob \<and> length prob = 3145728 \<and>
           xs = map (\<lambda>r. prob ! ring2nest lib 512 r) [0..<3145728]"
proof -
  from assms obtain tb t prob where tb: "table_2d l = Inr tb"
    and t: "rasterize lib tb 9 = Inr t" and p: "getcol t ''PROB'' = Inr prob"
    and re: "reorder lib prob = Inr xs"
    by (auto simp: flat_2d_def nside2order_nside andthen_Inr_iff)
  have len: "length prob = 3145728"
    using rasterize_column_length [OF t p] by (simp add: nside2npix_working)
  from reorder_Inr [OF re] len
  have "xs = map (\<lambda>r. prob ! ring2nest lib 512 r) [0..<3145728]"
    by (auto simp: npix2nside_working)
  with tb t p len show ?thesis by blast
qed

lemma flat_3d_Inr:
  assumes "is_3d l" and "flat lib l = Inr xss"
  shows "\<exists>tb t cols. table l = Inr tb \<and> rasterize lib tb 9 = Inr t \<and>
           map (getcol t) [''PROB'', ''DISTMU'', ''DISTSIGMA'', ''DISTNORM''] = map Inr cols \<and>
           (\<forall>c \<in> set cols. length c = 3145728) \<and>
           xss = map (\<lambda>c. map (\<lambda>r. c ! ring2nest lib 512 r) [0..<3145728]) cols"
proof -
  from assms obtain tb t prob mu sg nm where tb: "table l = Inr tb"
    and t: "rasterize lib tb 9 = Inr t"
    and p: "getcol t ''PROB'' = Inr prob" and m: "getcol t ''DISTMU'' = Inr mu"
    and s: "getcol t ''DISTSIGMA'' = Inr sg" and n: "getcol t ''DISTNORM'' = Inr nm"
    and re: "reorder_seq lib [prob, mu, sg, nm] = Inr xss"
    by (auto simp: flat_def nside2order_nside andthen_Inr_iff)
  have len: "length prob = 3145728" "length mu = 3145728" "length sg = 3145728"
    "length nm = 3145728"
    using rasterize_column_length [OF t p] rasterize_column_length [OF t m]
      rasterize_column_length [OF t s] rasterize_column_length [OF t n]
    by (simp_all add: nside2npix_working)
  from reorder_seq_Inr [OF re] len(1)
  have "xss = map (\<lambda>c. map (\<lambda>r. c ! ring2nest lib 512 r) [0..<3145728]) [prob, mu, sg, nm]"
    by (auto simp: npix2nside_working)
  moreover have "map (getcol t) [''PROB'', ''DISTMU'', ''DISTSIGMA'', ''DISTNORM''] =
      map Inr [prob, mu, sg, nm]"
    using p m s n by simp
  moreover have "\<forall>c \<in> set [prob, mu, sg, nm]. length c = 3145728"
    using len by simp
  ultimately show ?thesis using tb t by blast
qed

text \<open>On the sample inputs every step succeeds.\<close>

lemma sample_flat_2d: "flat_2d sample_library sample_map_2d = Inr (replicate 3145728 0)"
proof -
  have tb: "table_2d sample_map_2d =
      Inr [(''UNIQ'', IntColumn [4, 5]), (''PROBDENSITY'', FloatColumn [1 / 4, 3 / 4])]"
    by (simp add: table_2d_def sample_map_2d_def asarray_int64_def Table_def)
  have "flat_2d sample_library sample_map_2d =
      Inr (map (\<lambda>r. (\<lambda>n i. 0) ''PROBDENSITY'' (ring2nest sample_library 512 r)) [0..<3145728])"
    by (rule flat_2d_returns [OF tb]) (simp_all add: sample_library_def)
  then show ?thesis by (simp add: map_replicate_const)
qed

lemma sample_flat_3d:
  "flat sample_library sample_map_3d =
     Inr [replicate 3145728 0, replicate 3145728 0, replicate 3145728 0, replicate 3145728 0]"
proof -
  have d3: "is_3d sample_map_3d"
    by (simp add: is_3d_def sample_map_3d_def)
  have tb: "table sample_map_3d =
      Inr [(''UNIQ'', IntColumn [4, 5]), (''PROBDENSITY'', FloatColumn [1 / 4, 3 / 4]),
           (''DISTMU'', FloatColumn [100, 120]), (''DISTSIGMA'', FloatColumn [10, 12]),
           (''DISTNORM'', FloatColumn [1, 1])]"
    by (simp add: table_def is_3d_def sample_map_3d_def asarray_int64_def Table_def)
  have "flat sample_library sample_map_3d =
      Inr (map (\<lambda>n. map (\<lambda>r. (\<lambda>n i. 0) n (ring2nest sample_library 512 r)) [0..<3145728])
             [''PROBDENSITY'', ''DISTMU'', ''DISTSIGMA'', ''DISTNORM''])"
    by (rule flat_returns_3d [OF d3 tb]) (simp_all add: sample_library_def)
  then show ?thesis by (simp add: map_replicate_const)
qed

text \<open>On the second library the pixel order is reversed.\<close>

lemma reorder_one_nth:
  assumes "\<forall>r < n. ring2nest lib ns r < length m"
  shows "reorder_one lib n ns m = Inr (map (\<lambda>r. m ! ring2nest lib ns r) [0..<n])"
  using assms by (simp add: reorder_one_def take_indices_upt)

lemma reversing_ring:
  "\<forall>r < nside2npix nside. ring2nest reversing_library nside r < nside2npix nside"
  by (auto simp: reversing_library_def nside_def nside2npix_def)

lemma sample_table_2d:
  "table_2d sample_map_2d =
     Inr [(''UNIQ'', IntColumn [4, 5]), (''PROBDENSITY'', FloatColumn [1 / 4, 3 / 4])]"
  by (simp add: table_2d_def sample_map_2d_def asarray_int64_def Table_def)

lemma sample_table_3d:
  "table sample_map_3d =
     Inr [(''UNIQ'', IntColumn [4, 5]), (''PROBDENSITY'', FloatColumn [1 / 4, 3 / 4]),
          (''DISTMU'', FloatColumn [100, 120]), (''DISTSIGMA'', FloatColumn [10, 12]),
          (''DISTNORM'', FloatColumn [1, 1])]"
  by (simp add: table_def is_3d_def sample_map_3d_def asarray_int64_def Table_def)

lemma reversing_rasterize_2d:
  "rasterize reversing_library
     [(''UNIQ'', IntColumn [4, 5]), (''PROBDENSITY'', FloatColumn [1 / 4, 3 / 4])] 9 =
   Inr [(''PROB'', map (\<lambda>i. real (i + 11)) [0..<3145728])]"
  by (simp add: rasterize_def reversing_library_def out_name_def nside2npix_def)

lemma reversing_rasterize_3d:
  "rasterize reversing_library
     [(''UNIQ'', IntColumn [4, 5]), (''PROBDENSITY'', FloatColumn [1 / 4, 3 / 4]),
      (''DISTMU'', FloatColumn [100, 120]), (''DISTSIGMA'', FloatColumn [10, 12]),
      (''DISTNORM'', FloatColumn [1, 1])] 9 =
   Inr [(''PROB'', map (\<lambda>i. real (i + 11)) [0..<3145728]),
        (''DISTMU'', map (\<lambda>i. real (i + 6)) [0..<3145728]),
        (''DISTSIGMA'', map (\<lambda>i. real (i + 9)) [0..<3145728]),
        (''DISTNORM'', map (\<lambda>i. real (i + 8)) [0..<3145728])]"
  by (simp add: rasterize_def reversing_library_def out_name_def nside2npix_def)

lemma reversed_column:
  "map (\<lambda>r. map (\<lambda>i. real (i + k)) [0..<3145728] ! ring2nest reversing_library nside r)
     [0..<nside2npix nside] =
   map (\<lambda>r. real (3145727 - r + k)) [0..<3145728]"
  by (rule map_cong) (auto simp: reversing_library_def nside_def nside2npix_def)

section \<open>Facts about the tile index\<close>

lemma uniq_order_range:
  "4 * 4 ^ n \<le> u \<Longrightarrow> u < 16 * 4 ^ n \<Longrightarrow> uniq_order u = n"
proof (induction n arbitrary: u)
  case 0
  then show ?case by (simp add: uniq_order.simps)
next
  case (Suc n)
  have one: "(1::nat) \<le> 4 ^ n" by simp
  from Suc.prems have lo: "4 * 4 ^ n \<le> u div 4" and hi: "u div 4 < 16 * 4 ^ n"
    by simp_all
  from Suc.prems have "16 * 4 ^ n \<le> u" by simp
  with one have big: "\<not> u < 16" by linarith
  from Suc.IH [OF lo hi] big show ?case
    by (simp add: uniq_order.simps [of u])
qed

lemma decode_encode:
  assumes "valid_pair order pixel"
  shows "decode (4 * 4 ^ nat order + pixel) = Inr (order, pixel)"
proof -
  from assms have o: "0 \<le> order" and p0: "0 \<le> pixel" and p1: "pixel < 12 * 4 ^ nat order"
    by (simp_all add: valid_pair_def)
  let ?u = "4 * 4 ^ nat order + pixel"
  have n: "nat ?u = 4 * 4 ^ nat order + nat pixel"
    using p0 by (simp add: nat_add_distrib nat_mult_distrib nat_power_eq)
  have "nat pixel < 12 * 4 ^ nat order"
    using p0 p1 by (simp add: nat_less_iff)
  then have "uniq_order (nat ?u) = nat order"
    unfolding n by (intro uniq_order_range) simp_all
  moreover have "\<not> ?u < 4"
  proof -
    have "(1::int) \<le> 4 ^ nat order" by simp
    with p0 show ?thesis by linarith
  qed
  ultimately show ?thesis
    using o by (simp add: decode_def Let_def)
qed

section \<open>The claims\<close>

text \<open>
  Claim C1 says that the flat rasterized output (the 2D probability array and each array
  of the 3D tuple) has length exactly \<open>4^targetOrder\<close>. The views take no target order:
  the order is \<open>nside2order nside = 9\<close>, fixed by \<open>nside = 512\<close>. A HEALPix map of that
  order has \<open>12 * 4^9\<close> pixels, twelve base tiles each split nine times, and that is the
  length \<open>rasterize\<close> produces and \<open>reorder\<close> keeps. The sample map gives an array of
  3145728 entries, not \<open>4^9 = 262144\<close>.
\<close>

theorem flat_2d_length_counterexample:
  "nside2order nside = Inr 9 \<and>
   flat_2d sample_library sample_map_2d = Inr (replicate 3145728 0) \<and>
   length (replicate 3145728 (0::real)) \<noteq> 4 ^ 9"
  by (simp add: nside2order_nside sample_flat_2d)

text \<open>
  Claim C1 as the code has it: whenever \<open>flat_2d\<close> returns, its array has \<open>12 * 4^9\<close>
  entries, and whenever \<open>flat\<close> returns, every array of its tuple has \<open>12 * 4^9\<close>
  entries, for every map and whatever the libraries compute.
\<close>

theorem flat_length:
  "(flat_2d lib l = Inr xs \<longrightarrow> length xs = 12 * 4 ^ 9) \<and>
   (flat lib l = Inr xss \<longrightarrow> (\<forall>ys \<in> set xss. length ys = 12 * 4 ^ 9))"
proof (intro conjI impI)
  assume "flat_2d lib l = Inr xs"
  from flat_2d_Inr [OF this] show "length xs = 12 * 4 ^ 9" by auto
next
  assume fl: "flat lib l = Inr xss"
  show "\<forall>ys \<in> set xss. length ys = 12 * 4 ^ 9"
  proof (cases "is_3d l")
    case True
    from flat_3d_Inr [OF True fl] show ?thesis by auto
  next
    case False
    with fl obtain r where "flat_2d lib l = Inr r" and "xss = [r]"
      by (auto simp: flat_def andthen_Inr_iff)
    with flat_2d_Inr [of lib l r] show ?thesis by auto
  qed
qed

theorem flat_length_witness:
  "flat_2d sample_library sample_map_2d = Inr (replicate 3145728 0) \<and>
   flat sample_library sample_map_3d =
     Inr [replicate 3145728 0, replicate 3145728 0, replicate 3145728 0, replicate 3145728 0] \<and>
   length (replicate 3145728 (0::real)) = 12 * 4 ^ 9"
  using flat_length [where lib = sample_library and l = sample_map_2d
      and xs = "replicate 3145728 0"]
    sample_flat_2d sample_flat_3d
  by blast

text \<open>
  Claim C2: once the 2D raster and its posterior maximum have been computed, a dust query
  that raises at the peak coordinate does not make \<open>center\<close> raise. \<open>center\<close> returns
  the dictionary with \<open>ra\<close>, \<open>dec\<close>, \<open>gal_lat\<close> and \<open>gal_lon\<close> read from the peak
  coordinate and with \<open>ebv\<close> set to \<open>None\<close>.
\<close>

theorem center_survives_dust_failure:
  assumes "flat_2d lib l = Inr prob"
    and "posterior_max lib prob = Inr coord"
    and "SFDQuery lib coord = Inl e"
  shows "center lib l =
           Inr [''ra'' \<mapsto> Some (ra_deg lib coord),
                ''dec'' \<mapsto> Some (dec_deg lib coord),
                ''gal_lat'' \<mapsto> Some (galactic_b_deg lib coord),
                ''gal_lon'' \<mapsto> Some (galactic_l_deg lib coord),
                ''ebv'' \<mapsto> None]"
  using assms by (simp add: center_def)

theorem center_survives_dust_failure_witness:
  "flat_2d sample_library sample_map_2d = Inr (replicate 3145728 0) \<and>
   posterior_max sample_library (replicate 3145728 0) = Inr (0, 0) \<and>
   SFDQuery sample_library (0, 0) = Inl (LibraryError ''dust map file not found'') \<and>
   center sample_library sample_map_2d =
     Inr [''ra'' \<mapsto> Some 0, ''dec'' \<mapsto> Some 0, ''gal_lat'' \<mapsto> Some 0,
          ''gal_lon'' \<mapsto> Some 0, ''ebv'' \<mapsto> None]"
proof -
  have p: "posterior_max sample_library (replicate 3145728 0) = Inr (0, 0)"
    by (simp add: sample_library_def)
  have q: "SFDQuery sample_library (0, 0) = Inl (LibraryError ''dust map file not found'')"
    by (simp add: sample_library_def)
  from center_survives_dust_failure [OF sample_flat_2d p q] p q sample_flat_2d
  show ?thesis by (simp add: sample_library_def)
qed

text \<open>
  Claim C3 says that for every valid map, built from tile-identifier and density arrays
  with unique identifiers and non-negative densities, the table view returns the stored
  arrays unchanged. \<open>table_2d\<close> converts the identifiers with
  \<open>np.asarray(self.uniq, dtype=np.int64)\<close>, which raises on an identifier that does not
  fit in a signed 64-bit integer. The identifier \<open>2^63\<close> fits in an unsigned 64-bit
  integer and is the identifier of pixel \<open>2^62\<close> at order 30; the one-tile map that holds
  it is constructed, and its \<open>table_2d\<close> raises \<open>OverflowError\<close>.
\<close>

theorem table_2d_unsigned_counterexample:
  "distinct [2 ^ 63 :: int] \<and> (0::int) \<le> 2 ^ 63 \<and> (2 ^ 63 :: int) < 2 ^ 64 \<and>
   encode 30 (2 ^ 62) = Inr (2 ^ 63) \<and>
   length [2 ^ 63 :: int] = length [1 :: real] \<and> (0::real) \<le> 1 \<and>
   Localization_init [2 ^ 63] [1 :: real] None None None =
     Inr \<lparr>uniq = [2 ^ 63], probdensity = [1], distmu = None, distsigma = None,
          distnorm = None\<rparr> \<and>
   table_2d \<lparr>uniq = [2 ^ 63], probdensity = [1 :: real], distmu = None, distsigma = None,
             distnorm = None\<rparr> = Inl OverflowError"
  by (simp add: Localization_init_def table_2d_def asarray_int64_def encode_def valid_pair_def)

text \<open>
  Claim C3 as the code has it: a map built from a tile-identifier array and a density
  array of the same length, with identifiers in the signed 64-bit range of the
  \<open>BigInteger\<close> column, is constructed, and its \<open>table_2d\<close> is the two-column table
  holding exactly those identifiers under \<open>UNIQ\<close> and exactly those densities under
  \<open>PROBDENSITY\<close>, in the order given. Unique identifiers and non-negative densities
  are not needed for this.
\<close>

theorem table_2d_round_trip:
  assumes "length u = length p"
    and "\<forall>x \<in> set u. - (2 ^ 63) \<le> x \<and> x < 2 ^ 63"
  shows "\<exists>l. Localization_init u p mu sg nm = Inr l \<and>
           table_2d l = Inr [(''UNIQ'', IntColumn u), (''PROBDENSITY'', FloatColumn p)]"
  using assms by (simp add: Localization_init_def table_2d_def asarray_int64_def Table_def)

theorem table_2d_round_trip_witness:
  "length [4, 5 :: int] = length [1 / 4, 3 / 4 :: real] \<and>
   - (2 ^ 63) \<le> (4::int) \<and> (4::int) < 2 ^ 63 \<and> - (2 ^ 63) \<le> (5::int) \<and> (5::int) < 2 ^ 63 \<and>
   (\<exists>l. Localization_init [4, 5] [1 / 4, 3 / 4 :: real] None None None = Inr l \<and>
      table_2d l =
        Inr [(''UNIQ'', IntColumn [4, 5]), (''PROBDENSITY'', FloatColumn [1 / 4, 3 / 4])])"
proof -
  have a: "length [4, 5 :: int] = length [1 / 4, 3 / 4 :: real]" by simp
  have b: "\<forall>x \<in> set [4, 5 :: int]. - (2 ^ 63) \<le> x \<and> x < 2 ^ 63" by simp
  from table_2d_round_trip [OF a b, of None None None] a b show ?thesis by simp
qed

text \<open>
  Claim C4 says that \<open>is_3d\<close> holds exactly when the three distance arrays are present,
  and that a map in which some tile lacks one of the three distance quantities is treated
  as 2D-only. The flag looks at the three attributes as wholes and never at a tile: the
  map below has two tiles and a single \<open>distmu\<close> value, so its second tile has no
  \<open>distmu\<close>, yet \<open>is_3d\<close> holds and \<open>table\<close> takes the five-column branch, where
  \<open>Table\<close> raises on the unequal columns.
\<close>

theorem is_3d_ragged_counterexample:
  "uniq \<lparr>uniq = [4, 5], probdensity = [1 / 4, 3 / 4 :: real], distmu = Some [100],
         distsigma = Some [10, 12], distnorm = Some [1, 1]\<rparr> = [4, 5] \<and>
   distmu \<lparr>uniq = [4, 5], probdensity = [1 / 4, 3 / 4 :: real], distmu = Some [100],
         distsigma = Some [10, 12], distnorm = Some [1, 1]\<rparr> = Some [100] \<and>
   is_3d \<lparr>uniq = [4, 5], probdensity = [1 / 4, 3 / 4 :: real], distmu = Some [100],
         distsigma = Some [10, 12], distnorm = Some [1, 1]\<rparr> \<and>
   table \<lparr>uniq = [4, 5], probdensity = [1 / 4, 3 / 4 :: real], distmu = Some [100],
         distsigma = Some [10, 12], distnorm = Some [1, 1]\<rparr> = Inl ValueError"
  by (simp add: is_3d_def table_def asarray_int64_def Table_def)

text \<open>
  Claim C4 as the code has it: \<open>is_3d\<close> holds exactly when \<open>distmu\<close>, \<open>distsigma\<close>
  and \<open>distnorm\<close> are all present as arrays, and when one of the three arrays is absent
  the map is 2D-only: \<open>is_3d\<close> fails and \<open>table\<close> is \<open>table_2d\<close>.
\<close>

theorem is_3d_iff_arrays_present:
  "(is_3d l \<longleftrightarrow>
      (\<exists>mu sg nm. distmu l = Some mu \<and> distsigma l = Some sg \<and> distnorm l = Some nm)) \<and>
   (distmu l = None \<or> distsigma l = None \<or> distnorm l = None \<longrightarrow>
      \<not> is_3d l \<and> table l = table_2d l)"
  by (auto simp: is_3d_def table_def)

theorem is_3d_iff_arrays_present_witness:
  "distmu sample_map_2d = None \<and> \<not> is_3d sample_map_2d \<and>
   table sample_map_2d = table_2d sample_map_2d \<and> is_3d sample_map_3d"
proof -
  have a: "distmu sample_map_2d = None" by (simp add: sample_map_2d_def)
  have b: "\<exists>mu sg nm. distmu sample_map_3d = Some mu \<and> distsigma sample_map_3d = Some sg \<and>
      distnorm sample_map_3d = Some nm"
    by (simp add: sample_map_3d_def)
  from is_3d_iff_arrays_present [of sample_map_2d] is_3d_iff_arrays_present [of sample_map_3d]
    a b
  show ?thesis by blast
qed

text \<open>
  Claim C5: both flat views reorder from NESTED to RING. For a library whose \<open>ring2nest\<close>
  stays within the pixel range, once the table is built and rasterized at order 9,
  \<open>flat_2d\<close> returns the array that holds at each RING position \<open>r\<close> the entry of the
  rasterized \<open>PROB\<close> column at the NESTED position \<open>ring2nest nside r\<close>; and for a 3D
  map \<open>flat\<close> returns the four arrays that hold at \<open>r\<close> the entry of the rasterized
  \<open>PROB\<close>, \<open>DISTMU\<close>, \<open>DISTSIGMA\<close> and \<open>DISTNORM\<close> columns at
  \<open>ring2nest nside r\<close>. The two paths use the same index map, over all
  \<open>nside2npix nside\<close> positions. On the library that reverses the pixel order the first
  entry of the rasterized \<open>PROB\<close> column is 11 and the first entry of \<open>flat_2d\<close> is
  3145738, the last entry of that column.
\<close>

theorem flat_outputs_ring_ordered:
  assumes ring: "\<forall>r < nside2npix nside. ring2nest lib nside r < nside2npix nside"
  shows "(table_2d l = Inr tb \<and> rasterize lib tb 9 = Inr t \<and> getcol t ''PROB'' = Inr prob \<longrightarrow>
            flat_2d lib l =
              Inr (map (\<lambda>r. prob ! ring2nest lib nside r) [0..<nside2npix nside])) \<and>
         (is_3d l \<and> table l = Inr tb' \<and> rasterize lib tb' 9 = Inr t' \<and>
          getcol t' ''PROB'' = Inr prob' \<and> getcol t' ''DISTMU'' = Inr mu \<and>
          getcol t' ''DISTSIGMA'' = Inr sg \<and> getcol t' ''DISTNORM'' = Inr nm \<longrightarrow>
            flat lib l =
              Inr (map (\<lambda>c. map (\<lambda>r. c ! ring2nest lib nside r) [0..<nside2npix nside])
                     [prob', mu, sg, nm]))"
proof (rule conjI; rule impI)
  have ring': "\<forall>r < 3145728. ring2nest lib 512 r < 3145728"
    using ring by (simp add: nside_def nside2npix_working)
  assume a: "table_2d l = Inr tb \<and> rasterize lib tb 9 = Inr t \<and> getcol t ''PROB'' = Inr prob"
  then have tb: "table_2d l = Inr tb" and t: "rasterize lib tb 9 = Inr t"
    and p: "getcol t ''PROB'' = Inr prob"
    by simp_all
  have len: "length prob = 3145728"
    using rasterize_column_length [OF t p] by (simp add: nside2npix_working)
  have "reorder lib prob = Inr (map (\<lambda>r. prob ! ring2nest lib 512 r) [0..<3145728])"
    using len ring' by (rule reorder_working)
  then show "flat_2d lib l =
      Inr (map (\<lambda>r. prob ! ring2nest lib nside r) [0..<nside2npix nside])"
    by (simp add: flat_2d_def nside2order_nside [unfolded nside_def] tb t p
        nside2npix_working nside_def)
next
  have ring': "\<forall>r < 3145728. ring2nest lib 512 r < 3145728"
    using ring by (simp add: nside_def nside2npix_working)
  assume a: "is_3d l \<and> table l = Inr tb' \<and> rasterize lib tb' 9 = Inr t' \<and>
      getcol t' ''PROB'' = Inr prob' \<and> getcol t' ''DISTMU'' = Inr mu \<and>
      getcol t' ''DISTSIGMA'' = Inr sg \<and> getcol t' ''DISTNORM'' = Inr nm"
  then have d3: "is_3d l" and tb: "table l = Inr tb'" and t: "rasterize lib tb' 9 = Inr t'"
    and p: "getcol t' ''PROB'' = Inr prob'" and m: "getcol t' ''DISTMU'' = Inr mu"
    and s: "getcol t' ''DISTSIGMA'' = Inr sg" and n: "getcol t' ''DISTNORM'' = Inr nm"
    by simp_all
  have len: "length prob' = 3145728" "length mu = 3145728" "length sg = 3145728"
    "length nm = 3145728"
    using rasterize_column_length [OF t p] rasterize_column_length [OF t m]
      rasterize_column_length [OF t s] rasterize_column_length [OF t n]
    by (simp_all add: nside2npix_working)
  have one: "reorder_one lib 3145728 512 c =
      Inr (map (\<lambda>r. c ! ring2nest lib 512 r) [0..<3145728])" if "length c = 3145728" for c
    using ring' that by (intro reorder_one_nth) simp
  have "reorder_seq lib [prob', mu, sg, nm] =
      Inr (map (\<lambda>c. map (\<lambda>r. c ! ring2nest lib 512 r) [0..<3145728]) [prob', mu, sg, nm])"
    by (simp add: reorder_seq_def len npix2nside_working one)
  then show "flat lib l =
      Inr (map (\<lambda>c. map (\<lambda>r. c ! ring2nest lib nside r) [0..<nside2npix nside])
             [prob', mu, sg, nm])"
    unfolding flat_def using d3
    by (simp add: nside2order_nside [unfolded nside_def] tb t p m s n
        nside2npix_working nside_def)
qed

theorem flat_outputs_ring_ordered_witness:
  "table_2d sample_map_2d =
     Inr [(''UNIQ'', IntColumn [4, 5]), (''PROBDENSITY'', FloatColumn [1 / 4, 3 / 4])] \<and>
   rasterize reversing_library
     [(''UNIQ'', IntColumn [4, 5]), (''PROBDENSITY'', FloatColumn [1 / 4, 3 / 4])] 9 =
     Inr [(''PROB'', map (\<lambda>i. real (i + 11)) [0..<3145728])] \<and>
   flat_2d reversing_library sample_map_2d =
     Inr (map (\<lambda>r. real (3145727 - r + 11)) [0..<3145728]) \<and>
   map (\<lambda>i. real (i + 11)) [0..<3145728] ! 0 = 11 \<and>
   map (\<lambda>r. real (3145727 - r + 11)) [0..<3145728] ! 0 = 3145738 \<and>
   is_3d sample_map_3d \<and>
   flat reversing_library sample_map_3d =
     Inr [map (\<lambda>r. real (3145727 - r + 11)) [0..<3145728],
          map (\<lambda>r. real (3145727 - r + 6)) [0..<3145728],
          map (\<lambda>r. real (3145727 - r + 9)) [0..<3145728],
          map (\<lambda>r. real (3145727 - r + 8)) [0..<3145728]]"
proof -
  let ?tb2 = "[(''UNIQ'', IntColumn [4, 5]), (''PROBDENSITY'', FloatColumn [1 / 4, 3 / 4 :: real])]"
  let ?tb3 = "[(''UNIQ'', IntColumn [4, 5]), (''PROBDENSITY'', FloatColumn [1 / 4, 3 / 4 :: real]),
      (''DISTMU'', FloatColumn [100, 120]), (''DISTSIGMA'', FloatColumn [10, 12]),
      (''DISTNORM'', FloatColumn [1, 1])]"
  let ?col = "\<lambda>k. map (\<lambda>i. real (i + k)) [0..<3145728]"
  let ?t2 = "[(''PROB'', ?col 11)]"
  let ?t3 = "[(''PROB'', ?col 11), (''DISTMU'', ?col 6), (''DISTSIGMA'', ?col 9),
      (''DISTNORM'', ?col 8)]"
  have g2: "getcol ?t2 ''PROB'' = Inr (?col 11)"
    by (simp add: getcol_def)
  have g3: "getcol ?t3 ''PROB'' = Inr (?col 11)" "getcol ?t3 ''DISTMU'' = Inr (?col 6)"
    "getcol ?t3 ''DISTSIGMA'' = Inr (?col 9)" "getcol ?t3 ''DISTNORM'' = Inr (?col 8)"
    by (simp_all add: getcol_def)
  have d3: "is_3d sample_map_3d"
    by (simp add: is_3d_def sample_map_3d_def)
  have "flat_2d reversing_library sample_map_2d =
      Inr (map (\<lambda>r. ?col 11 ! ring2nest reversing_library nside r) [0..<nside2npix nside])"
    using flat_outputs_ring_ordered [OF reversing_ring, where l = sample_map_2d
        and tb = ?tb2 and t = ?t2 and prob = "?col 11"]
      sample_table_2d reversing_rasterize_2d g2
    by blast
  then have two: "flat_2d reversing_library sample_map_2d =
      Inr (map (\<lambda>r. real (3145727 - r + 11)) [0..<3145728])"
    unfolding reversed_column .
  have "flat reversing_library sample_map_3d =
      Inr (map (\<lambda>c. map (\<lambda>r. c ! ring2nest reversing_library nside r) [0..<nside2npix nside])
             [?col 11, ?col 6, ?col 9, ?col 8])"
    using flat_outputs_ring_ordered [OF reversing_ring, where l = sample_map_3d
        and tb' = ?tb3 and t' = ?t3 and prob' = "?col 11" and mu = "?col 6"
        and sg = "?col 9" and nm = "?col 8"]
      sample_table_3d reversing_rasterize_3d g3 d3
    by blast
  then have three: "flat reversing_library sample_map_3d =
      Inr [map (\<lambda>r. real (3145727 - r + 11)) [0..<3145728],
           map (\<lambda>r. real (3145727 - r + 6)) [0..<3145728],
           map (\<lambda>r. real (3145727 - r + 9)) [0..<3145728],
           map (\<lambda>r. real (3145727 - r + 8)) [0..<3145728]]"
    unfolding list.map reversed_column .
  have first: "?col 11 ! 0 = 11"
    "map (\<lambda>r. real (3145727 - r + 11)) [0..<3145728] ! 0 = 3145738"
    by simp_all
  from two three first d3 sample_table_2d reversing_rasterize_2d show ?thesis
    by blast
qed

text \<open>
  Claim C7 says that construction checks that the arrays have equal lengths, that the
  densities are non-negative and that the identifiers are unique, and fails otherwise.
  Construction checks nothing: five identifiers with four densities give an object that
  holds both arrays.
\<close>

theorem construction_mismatch_counterexample:
  "length [4, 5, 6, 7, 8 :: int] = 5 \<and> length [1 / 5, 1 / 5, 1 / 5, 1 / 5 :: real] = 4 \<and>
   Localization_init [4, 5, 6, 7, 8] [1 / 5, 1 / 5, 1 / 5, 1 / 5 :: real] None None None =
     Inr \<lparr>uniq = [4, 5, 6, 7, 8], probdensity = [1 / 5, 1 / 5, 1 / 5, 1 / 5],
          distmu = None, distsigma = None, distnorm = None\<rparr>"
  by (simp add: Localization_init_def)

text \<open>
  Claim C7 as the code has it: construction succeeds on every input and the object holds
  the five arrays exactly as they were given.
\<close>

theorem construction_never_fails:
  "Localization_init u p mu sg nm =
     Inr \<lparr>uniq = u, probdensity = p, distmu = mu, distsigma = sg, distnorm = nm\<rparr>"
  by (simp add: Localization_init_def)

text \<open>
  Claim C9: for every valid pair of order and pixel, \<open>encode\<close> returns an identifier and
  \<open>decode\<close> of that identifier returns the same pair; and two pairs that \<open>encode\<close> maps
  to the same identifier are equal.
\<close>

theorem encode_decode_round_trip:
  "(valid_pair order pixel \<longrightarrow>
      (\<exists>tile. encode order pixel = Inr tile \<and> decode tile = Inr (order, pixel))) \<and>
   (encode order pixel = Inr tile \<and> encode order' pixel' = Inr tile \<longrightarrow>
      order' = order \<and> pixel' = pixel)"
proof (rule conjI; rule impI)
  assume "valid_pair order pixel"
  then show "\<exists>tile. encode order pixel = Inr tile \<and> decode tile = Inr (order, pixel)"
    by (simp add: encode_def decode_encode)
next
  assume a: "encode order pixel = Inr tile \<and> encode order' pixel' = Inr tile"
  then have v: "valid_pair order pixel" and v': "valid_pair order' pixel'"
    and t: "tile = 4 * 4 ^ nat order + pixel" and t': "tile = 4 * 4 ^ nat order' + pixel'"
    by (auto simp: encode_def split: if_splits)
  from decode_encode [OF v] decode_encode [OF v'] t t'
  have "Inr (order, pixel) = (Inr (order', pixel') :: tile_error + int \<times> int)" by simp
  then show "order' = order \<and> pixel' = pixel" by simp
qed

theorem encode_decode_round_trip_witness:
  "valid_pair 1 7 \<and> encode 1 7 = Inr 23 \<and> decode 23 = Inr (1, 7)"
proof -
  have v: "valid_pair 1 7" by (simp add: valid_pair_def)
  have e: "encode 1 7 = Inr 23" by (simp add: encode_def valid_pair_def)
  from encode_decode_round_trip [of 1 7 23 1 7] v e show ?thesis by simp
qed

text \<open>
  Claim C10: for a map that is not 3D, \<open>flat\<close> is \<open>flat_2d\<close> wrapped in a one-element
  tuple: it returns the tuple whose only element is the array \<open>flat_2d\<close> returns, and it
  raises what \<open>flat_2d\<close> raises.
\<close>

theorem flat_wraps_flat_2d:
  "\<not> is_3d l \<Longrightarrow>
     flat lib l = (case flat_2d lib l of Inl e \<Rightarrow> Inl e | Inr r \<Rightarrow> Inr [r])"
  by (simp add: flat_def andthen_def)

theorem flat_wraps_flat_2d_witness:
  "\<not> is_3d sample_map_2d \<and>
   flat_2d sample_library sample_map_2d = Inr (replicate 3145728 0) \<and>
   flat sample_library sample_map_2d = Inr [replicate 3145728 0]"
proof -
  have a: "\<not> is_3d sample_map_2d" by (simp add: is_3d_def sample_map_2d_def)
  from flat_wraps_flat_2d [OF a, of sample_library] a sample_flat_2d
  show ?thesis by simp
qed

end
